theory Spec2Isabelle
  imports Complex_Main
begin

section \<open>Tensors\<close>

text \<open>
  The callbacks of \<^verbatim>\<open>skada/deep/callbacks.py\<close> compute on torch tensors. A 1-D tensor is a
  list of numbers and a 2-D tensor the list of its rows. Numbers are real numbers: the
  arithmetic of the model is exact where torch rounds to the nearest float32. What float32
  does beyond rounding is modelled where it changes a result of the callbacks from a number
  to no number, in the renormalization of the squared softmax outputs.
\<close>

type_synonym vec = "real list"
type_synonym tensor2 = "real list list"

datatype error = IndexError | RuntimeError

text \<open>
  \<^verbatim>\<open>t[mask]\<close> with a boolean mask keeps the entries (rows) whose mask entry is true; torch
  and numpy raise \<^verbatim>\<open>IndexError\<close> when the mask is not as long as the first dimension.
\<close>

definition mask_index :: "'a list \<Rightarrow> bool list \<Rightarrow> error + 'a list" where
  "mask_index t msk =
     (if length msk \<noteq> length t then Inl IndexError
      else Inr (map fst (filter snd (zip t msk))))"

text \<open>
  \<^verbatim>\<open>t[idx]\<close> with an index tensor gathers (copies) the rows at the indices and raises
  \<^verbatim>\<open>IndexError\<close> on an index past the last row. Sample indices are positions handed out
  by the dataset, so they are natural numbers.
\<close>

definition index_rows :: "tensor2 \<Rightarrow> nat list \<Rightarrow> error + tensor2" where
  "index_rows t idx =
     (if list_all (\<lambda>i. i < length t) idx then Inr (map (\<lambda>i. t ! i) idx)
      else Inl IndexError)"

text \<open>
  \<^verbatim>\<open>t[idx] = values\<close> writes row \<open>k\<close> of the values at position \<open>idx[k]\<close>, in the order of
  the index tensor (a later write to the same position wins).
\<close>

fun put_rows :: "tensor2 \<Rightarrow> nat list \<Rightarrow> tensor2 \<Rightarrow> tensor2" where
  "put_rows t (i # idx) (v # values) = put_rows (t[i := v]) idx values"
| "put_rows t idx values = t"

definition index_put :: "tensor2 \<Rightarrow> nat list \<Rightarrow> tensor2 \<Rightarrow> error + tensor2" where
  "index_put t idx values =
     (if \<not> list_all (\<lambda>i. i < length t) idx then Inl IndexError
      else if length values \<noteq> length idx then Inl RuntimeError
      else Inr (put_rows t idx values))"

text \<open>Scalar times tensor.\<close>

definition smul :: "real \<Rightarrow> tensor2 \<Rightarrow> tensor2" where
  "smul c t = map (map (\<lambda>x. c * x)) t"

text \<open>
  \<^verbatim>\<open>t.sum(dim=0)\<close> adds the rows of a 2-D tensor. For a tensor without rows torch returns
  zeros of the row width, which a list of rows does not carry; the callbacks sum either a
  tensor that has a row or divide a tensor without rows by the sum.
\<close>

definition vadd :: "vec \<Rightarrow> vec \<Rightarrow> vec" where
  "vadd u v = map2 (+) u v"

fun sum_dim0 :: "tensor2 \<Rightarrow> vec" where
  "sum_dim0 [] = []"
| "sum_dim0 (r # rs) = foldl vadd r rs"

text \<open>
  \<^verbatim>\<open>F.normalize(t, p=2, dim=1)\<close> divides every row by its L2 norm, clamped from below by
  \<^verbatim>\<open>eps = 1e-12\<close>.
\<close>

definition l2_norm :: "vec \<Rightarrow> real" where
  "l2_norm v = sqrt (sum_list (map (\<lambda>x. x\<^sup>2) v))"

definition normalize_eps :: real where
  "normalize_eps = 1 / 10 ^ 12"

definition normalize_row :: "vec \<Rightarrow> vec" where
  "normalize_row v = map (\<lambda>x. x / max (l2_norm v) normalize_eps) v"

definition F_normalize :: "tensor2 \<Rightarrow> tensor2" where
  "F_normalize t = map normalize_row t"

text \<open>\<^verbatim>\<open>F.softmax(t, dim=1)\<close>: the softmax of every row.\<close>

definition softmax_row :: "vec \<Rightarrow> vec" where
  "softmax_row v = map (\<lambda>x. exp x / sum_list (map exp v)) v"

definition F_softmax :: "tensor2 \<Rightarrow> tensor2" where
  "F_softmax t = map softmax_row t"

text \<open>
  \<^verbatim>\<open>softmax_out**2 / ((softmax_out**2).sum(dim=0))\<close>: the squares, every row divided
  entrywise by the column sums (broadcast along the batch dimension). The tensors are
  float32, the default of torch. A square of magnitude at most \<open>2 ^ -150\<close>, half the
  smallest positive float32, rounds to zero, and the division is not guarded: a division by
  zero gives \<^verbatim>\<open>nan\<close> or \<^verbatim>\<open>inf\<close>, for which the model has \<open>None\<close>. Sums and scalar products
  of such entries are no numbers either.
\<close>

definition float32_underflow :: real where
  "float32_underflow = 1 / 2 ^ 150"

definition square_f32 :: "real \<Rightarrow> real" where
  "square_f32 p = (if p\<^sup>2 \<le> float32_underflow then 0 else p\<^sup>2)"

definition div_f32 :: "real \<Rightarrow> real \<Rightarrow> real option" where
  "div_f32 a b = (if b = 0 then None else Some (a / b))"

definition add_f32 :: "real option \<Rightarrow> real option \<Rightarrow> real option" where
  "add_f32 a b =
     (case a of None \<Rightarrow> None
      | Some x \<Rightarrow> (case b of None \<Rightarrow> None | Some y \<Rightarrow> Some (x + y)))"

definition squared_renorm :: "tensor2 \<Rightarrow> real option list list" where
  "squared_renorm softmax_out =
     (let sq = map (map square_f32) softmax_out;
          col = sum_dim0 sq
      in map (\<lambda>row. map2 div_f32 row col) sq)"

section \<open>The network, its criterion and the data\<close>

text \<open>
  \<^verbatim>\<open>X\<close> is a dict of arrays with one entry per sample: the inputs \<^verbatim>\<open>X["X"]\<close>, the domain
  indicators \<^verbatim>\<open>X["sample_domain"]\<close> (non-negative: source, negative: target) and the
  sample indices \<^verbatim>\<open>X["sample_idx"]\<close>.
\<close>

record 'x X_dict =
  X_X :: "'x list"
  sample_domain :: "int list"
  sample_idx :: "nat list"

record 'd dataset =
  dataset_X :: 'd
  dataset_y :: "int list option"

text \<open>
  \<^verbatim>\<open>SphericalKMeans\<close> lives in \<^verbatim>\<open>skada.deep.utils\<close>. The callback builds it from three
  arguments and calls its \<^verbatim>\<open>fit\<close>, which is a parameter of the model; \<open>'f\<close> is whatever
  the fit leaves in the object.
\<close>

record 'f SphericalKMeans =
  n_clusters :: nat
  random_state :: nat
  initial_centroids :: tensor2
  fitted :: "'f option"

record 'f adapt_criterion =
  memory_features :: tensor2
  memory_outputs :: tensor2
  target_kmeans :: "'f SphericalKMeans option"

text \<open>
  The module: its train/eval flag and its forward pass with \<^verbatim>\<open>return_features=True\<close>,
  which returns the outputs and the features of the rows it is given. The callback calls it
  in eval mode only.
\<close>

record 'x torch_module =
  training :: bool
  forward :: "'x list \<Rightarrow> tensor2 \<times> tensor2"

record ('d, 'x, 'f) net =
  prepare_input :: "'d \<Rightarrow> 'x X_dict \<times> int list"
  predict_features :: "'x list \<Rightarrow> tensor2"
  net_module :: "'x torch_module"
  criterion__adapt_criterion :: "'f adapt_criterion"

section \<open>ComputeSourceCentroids\<close>

text \<open>
  The loop \<^verbatim>\<open>for c in range(n_classes)\<close> of \<^verbatim>\<open>on_epoch_begin\<close>, with the list
  \<^verbatim>\<open>source_centroids\<close> it appends to.
\<close>

fun centroids_loop :: "tensor2 \<Rightarrow> int list \<Rightarrow> nat list \<Rightarrow> tensor2 \<Rightarrow> error + tensor2" where
  "centroids_loop features_s y_s [] source_centroids = Inr source_centroids"
| "centroids_loop features_s y_s (c # cs) source_centroids =
     (let msk = map (\<lambda>l. l = int c) y_s in
      if length (filter id msk) > 0 then
        (case mask_index features_s msk of
           Inl e \<Rightarrow> Inl e
         | Inr class_features \<Rightarrow>
             (let normalized_features = F_normalize class_features;
                  centroid = sum_dim0 normalized_features
              in centroids_loop features_s y_s cs (source_centroids @ [centroid])))
      else centroids_loop features_s y_s cs source_centroids)"

text \<open>\<^verbatim>\<open>torch.stack\<close> raises \<^verbatim>\<open>RuntimeError\<close> on an empty list of tensors.\<close>

definition torch_stack :: "vec list \<Rightarrow> error + tensor2" where
  "torch_stack ts = (if ts = [] then Inl RuntimeError else Inr ts)"

text \<open>
  Lines 37 to 72 of \<^verbatim>\<open>on_epoch_begin\<close>: from the prepared \<^verbatim>\<open>X\<close> and the labels \<^verbatim>\<open>y\<close> to the
  \<^verbatim>\<open>SphericalKMeans\<close> object the callback constructs and the target features it is then
  fitted on.
\<close>

definition target_kmeans_init ::
  "('d, 'x, 'f) net \<Rightarrow> 'x X_dict \<Rightarrow> int list \<Rightarrow> error + ('f SphericalKMeans \<times> tensor2)" where
  "target_kmeans_init net Xd y =
     (case mask_index (X_X Xd) (map (\<lambda>d. d \<ge> 0) (sample_domain Xd)) of
        Inl e \<Rightarrow> Inl e
      | Inr X_s \<Rightarrow>
     (case mask_index y (map (\<lambda>d. d \<ge> 0) (sample_domain Xd)) of
        Inl e \<Rightarrow> Inl e
      | Inr y_s \<Rightarrow>
     (case mask_index (X_X Xd) (map (\<lambda>d. d < 0) (sample_domain Xd)) of
        Inl e \<Rightarrow> Inl e
      | Inr X_t \<Rightarrow>
     (let features_s = predict_features net X_s;
          features_t = predict_features net X_t;
          n_classes = length (remdups y_s)
      in case centroids_loop features_s y_s [0..<n_classes] [] of
           Inl e \<Rightarrow> Inl e
         | Inr cs \<Rightarrow>
        (case torch_stack cs of
           Inl e \<Rightarrow> Inl e
         | Inr source_centroids \<Rightarrow>
             Inr (\<lparr>n_clusters = n_classes, random_state = 0,
                   initial_centroids = source_centroids, fitted = None\<rparr>,
                  features_t))))))"

text \<open>
  The hook returns the network after the call, with the exception it raised if any: the
  criterion gets the fitted clusterer in the last statement only.
\<close>

definition on_epoch_begin ::
  "('f SphericalKMeans \<Rightarrow> tensor2 \<Rightarrow> error + 'f SphericalKMeans) \<Rightarrow>
   ('d, 'x, 'f) net \<Rightarrow> 'd dataset \<Rightarrow> error option \<times> ('d, 'x, 'f) net" where
  "on_epoch_begin fit net dataset_train =
     (let (Xd, y') = prepare_input net (dataset_X dataset_train);
          y = (case dataset_y dataset_train of None \<Rightarrow> y' | Some y0 \<Rightarrow> y0)
      in case target_kmeans_init net Xd y of
           Inl e \<Rightarrow> (Some e, net)
         | Inr (kmeans, features_t) \<Rightarrow>
        (case fit kmeans features_t of
           Inl e \<Rightarrow> (Some e, net)
         | Inr target_kmeans' \<Rightarrow>
             (None, net\<lparr>criterion__adapt_criterion :=
                (criterion__adapt_criterion net)\<lparr>target_kmeans := Some target_kmeans'\<rparr>\<rparr>)))"

section \<open>ComputeMemoryBank\<close>

record ComputeMemoryBank =
  momentum :: real

text \<open>
  \<^verbatim>\<open>on_batch_end\<close>. Each of the two assignments in the \<^verbatim>\<open>no_grad\<close> block ends at its closing
  parenthesis; the line after it, \<^verbatim>\<open>+self.momentum * ...\<close>, is an expression statement
  whose value is dropped. The rows are read from both memories before either is written.
\<close>

definition on_batch_end ::
  "ComputeMemoryBank \<Rightarrow> ('d, 'x, 'f) net \<Rightarrow> 'x X_dict \<times> 'b \<Rightarrow>
   error option \<times> ('d, 'x, 'f) net" where
  "on_batch_end self net batch =
     (let Xd = fst batch in
      case mask_index (X_X Xd) (map (\<lambda>d. d < 0) (sample_domain Xd)) of
        Inl e \<Rightarrow> (Some e, net)
      | Inr X_t \<Rightarrow>
     (case mask_index (sample_idx Xd) (map (\<lambda>d. d < 0) (sample_domain Xd)) of
        Inl e \<Rightarrow> (Some e, net)
      | Inr batch_idx \<Rightarrow>
     (let net1 = net\<lparr>net_module := (net_module net)\<lparr>training := False\<rparr>\<rparr>;
          (output_t, features_t0) = forward (net_module net1) X_t;
          features_t = F_normalize features_t0;
          softmax_out = F_softmax output_t;
          outputs_target = squared_renorm softmax_out;
          crit = criterion__adapt_criterion net1
      in case index_rows (memory_features crit) batch_idx of
           Inl e \<Rightarrow> (Some e, net1)
         | Inr old_features \<Rightarrow>
        (let new_memory_features = smul (1.0 - momentum self) old_features;
             dropped_features = smul (momentum self) features_t
         in case index_rows (memory_outputs crit) batch_idx of
              Inl e \<Rightarrow> (Some e, net1)
            | Inr old_outputs \<Rightarrow>
           (let new_memory_outputs = smul (1.0 - momentum self) old_outputs;
                dropped_outputs =
                  map (map (map_option (\<lambda>x. momentum self * x))) outputs_target
            in case index_put (memory_features crit) batch_idx new_memory_features of
                 Inl e \<Rightarrow> (Some e, net1)
               | Inr mf \<Rightarrow>
              (let net2 = net1\<lparr>criterion__adapt_criterion := crit\<lparr>memory_features := mf\<rparr>\<rparr>
               in case index_put (memory_outputs crit) batch_idx new_memory_outputs of
                    Inl e \<Rightarrow> (Some e, net2)
                  | Inr mo \<Rightarrow>
                      (None, net2\<lparr>criterion__adapt_criterion :=
                         (criterion__adapt_criterion net2)\<lparr>memory_outputs := mo\<rparr>\<rparr>)))))))"

section \<open>Notions of the specification\<close>

text \<open>
  A dict \<^verbatim>\<open>X\<close> is well shaped when its three arrays have one entry per sample. The target
  rows of a batch are those with a negative domain indicator; \<open>target_idx\<close> lists their
  sample indices and \<open>target_inputs\<close> their inputs, \<open>source_samples\<close> the inputs and labels
  of the rows with a non-negative indicator.
\<close>

definition well_shaped :: "'x X_dict \<Rightarrow> bool" where
  "well_shaped Xd \<longleftrightarrow>
     length (sample_domain Xd) = length (X_X Xd) \<and> length (sample_idx Xd) = length (X_X Xd)"

definition target_idx :: "'x X_dict \<Rightarrow> nat list" where
  "target_idx Xd = map snd (filter (\<lambda>(d, i). d < 0) (zip (sample_domain Xd) (sample_idx Xd)))"

definition target_inputs :: "'x X_dict \<Rightarrow> 'x list" where
  "target_inputs Xd = map snd (filter (\<lambda>(d, x). d < 0) (zip (sample_domain Xd) (X_X Xd)))"

definition source_samples :: "'x X_dict \<Rightarrow> int list \<Rightarrow> ('x \<times> int) list" where
  "source_samples Xd y =
     map snd (filter (\<lambda>(d, s). d \<ge> 0) (zip (sample_domain Xd) (zip (X_X Xd) y)))"

text \<open>
  The sum of column \<open>j\<close> of the pseudo-probabilities along the batch dimension, as
  \<^verbatim>\<open>.sum(dim=0)\<close> computes it: no number as soon as one entry is none.
\<close>

definition column_sum :: "real option list list \<Rightarrow> nat \<Rightarrow> real option" where
  "column_sum t j = foldl add_f32 (Some 0) (map (\<lambda>row. row ! j) t)"

section \<open>Example inputs\<close>

text \<open>
  A network over inputs that are their own features, whose module returns the logits
  \<open>[0, 0]\<close> for every row, with a memory bank of three rows; a batch of one source row and
  the target rows of sample indices 0 and 2; a batch of source rows only.
\<close>

definition example_net :: "(vec X_dict \<times> int list, vec, unit) net" where
  "example_net =
     \<lparr>prepare_input = (\<lambda>d. d),
      predict_features = (\<lambda>xs. xs),
      net_module = \<lparr>training = True, forward = (\<lambda>xs. (map (\<lambda>x. [0, 0]) xs, xs))\<rparr>,
      criterion__adapt_criterion =
        \<lparr>memory_features = [[1, 0], [0, 1], [3, 4]],
         memory_outputs = [[1 / 2, 1 / 2], [1, 0], [0, 1]],
         target_kmeans = None\<rparr>\<rparr>"

definition example_batch_X :: "vec X_dict" where
  "example_batch_X =
     \<lparr>X_X = [[5, 5], [0, 1], [2, 0]], sample_domain = [0, - 1, - 1], sample_idx = [1, 0, 2]\<rparr>"

definition example_source_batch_X :: "vec X_dict" where
  "example_source_batch_X =
     \<lparr>X_X = [[5, 5], [1, 2]], sample_domain = [0, 1], sample_idx = [1, 0]\<rparr>"

text \<open>
  The same network with another module (in eval mode, other features and logits) and a
  batch with other inputs and the same target sample indices.
\<close>

definition example_net' :: "(vec X_dict \<times> int list, vec, unit) net" where
  "example_net' =
     example_net\<lparr>net_module := \<lparr>training = False, forward = (\<lambda>xs. (xs, map (map (\<lambda>x. 2 * x)) xs))\<rparr>\<rparr>"

definition example_batch_X' :: "vec X_dict" where
  "example_batch_X' =
     \<lparr>X_X = [[7, 7], [1, 1], [9, 9]], sample_domain = [- 1, 3, - 2], sample_idx = [0, 1, 2]\<rparr>"

section \<open>The formulas of the specification\<close>

text \<open>
  The exponential moving average as the specification words it: momentum times the new
  value plus \<open>1 - momentum\<close> times the old value.
\<close>

definition spec_ema_update :: "real \<Rightarrow> vec \<Rightarrow> vec \<Rightarrow> vec" where
  "spec_ema_update m v0 v1 = vadd (map (\<lambda>x. m * x) v1) (map (\<lambda>x. (1 - m) * x) v0)"

text \<open>
  The source features of a class, and the class centroid as the specification words it:
  in every coordinate \<open>j < d\<close>, the sum over the source samples of the class of coordinate
  \<open>j\<close> of the L2-normalized feature vector.
\<close>

definition class_features_of :: "tensor2 \<Rightarrow> int list \<Rightarrow> int \<Rightarrow> tensor2" where
  "class_features_of features_s y_s c = map fst (filter (\<lambda>(f, l). l = c) (zip features_s y_s))"

definition spec_class_centroid :: "nat \<Rightarrow> tensor2 \<Rightarrow> int list \<Rightarrow> int \<Rightarrow> vec" where
  "spec_class_centroid d features_s y_s c =
     map (\<lambda>j. sum_list (map (\<lambda>(f, l). if l = c then normalize_row f ! j else 0)
                  (zip features_s y_s))) [0..<d]"

text \<open>
  The classes that get a centroid: the loop runs over \<open>0, ..., n_classes - 1\<close>, where
  \<open>n_classes\<close> is the number of distinct source labels, and skips a class without a
  source sample.
\<close>

definition visited_classes :: "int list \<Rightarrow> nat list" where
  "visited_classes y_s = filter (\<lambda>c. int c \<in> set y_s) [0..<length (remdups y_s)]"

text \<open>
  A training set with three source samples of class 0, two of class 1 and ten target
  samples (whose labels are not used).
\<close>

definition example_dataset_X :: "vec X_dict" where
  "example_dataset_X =
     \<lparr>X_X = [[1, 0], [2, 0], [0, 1], [0, 2], [1, 0]] @ replicate 10 [1, 1],
      sample_domain = [0, 0, 1, 1, 0] @ replicate 10 (- 1),
      sample_idx = [0, 1, 2, 3, 4] @ [0, 1, 2, 3, 4, 5, 6, 7, 8, 9]\<rparr>"

definition example_dataset_y :: "int list" where
  "example_dataset_y = [0, 0, 1, 1, 0] @ replicate 10 (- 1)"

text \<open>
  A training set with the classes 0, 1 and 2 in which class 1 has no source sample: two
  source samples, labelled 0 and 2, and one target sample. Then the same source samples with
  another target sample, and a batch with the target rows of \<open>example_batch_X\<close> and other
  source rows.
\<close>

definition example_gap_X :: "vec X_dict" where
  "example_gap_X =
     \<lparr>X_X = [[2, 0], [0, 2], [1, 1]], sample_domain = [0, 0, - 1], sample_idx = [0, 1, 0]\<rparr>"

definition example_gap_y :: "int list" where
  "example_gap_y = [0, 2, - 1]"

definition example_gap_X_other_target :: "vec X_dict" where
  "example_gap_X_other_target =
     \<lparr>X_X = [[5, 5], [2, 0], [0, 2]], sample_domain = [- 3, 1, 0], sample_idx = [0, 0, 1]\<rparr>"

definition example_gap_y_other_target :: "int list" where
  "example_gap_y_other_target = [7, 0, 2]"

definition example_batch_X_other_source :: "vec X_dict" where
  "example_batch_X_other_source =
     \<lparr>X_X = [[0, 1], [9, 9], [8, 8], [2, 0]], sample_domain = [- 1, 0, 2, - 1],
      sample_idx = [0, 2, 0, 2]\<rparr>"

text \<open>A \<^verbatim>\<open>fit\<close> that only records that it ran.\<close>

definition fit_records :: "unit SphericalKMeans \<Rightarrow> tensor2 \<Rightarrow> error + unit SphericalKMeans" where
  "fit_records kmeans features_t = Inr (kmeans\<lparr>fitted := Some ()\<rparr>)"

section \<open>Indexing lemmas\<close>

lemma length_put_rows: "length (put_rows t idx vs) = length t"
  by (induction t idx vs rule: put_rows.induct) simp_all

lemma put_rows_other: "j \<notin> set idx \<Longrightarrow> put_rows t idx vs ! j = t ! j"
  by (induction t idx vs rule: put_rows.induct) auto

text \<open>Values that depend on the position only: every write to a row writes the same.\<close>

lemma put_rows_map:
  "j < length t \<Longrightarrow> put_rows t idx (map g idx) ! j = (if j \<in> set idx then g j else t ! j)"
proof (induction idx arbitrary: t)
  case Nil
  then show ?case by simp
next
  case (Cons i idx)
  then show ?case by (cases "i = j") (auto simp: nth_list_update)
qed

lemma mask_index_zip:
  "length ds = length xs \<Longrightarrow>
   mask_index xs (map P ds) = Inr (map snd (filter (\<lambda>(d, x). P d) (zip ds xs)))"
  unfolding mask_index_def
  by (induction ds xs rule: list_induct2) auto

section \<open>What the batch-end hook does\<close>

text \<open>
  On a well-shaped batch the hook switches the module to eval, and then either raises
  \<^verbatim>\<open>IndexError\<close> (a target sample index past a memory) or writes, for every target sample
  index, the old row times \<open>1 - momentum\<close> into both memories.
\<close>

lemma on_batch_end_unfold:
  assumes "well_shaped Xd"
  shows "on_batch_end self net (Xd, b) =
    (let idx = target_idx Xd;
         net1 = net\<lparr>net_module := (net_module net)\<lparr>training := False\<rparr>\<rparr>;
         crit = criterion__adapt_criterion net;
         mf = memory_features crit; mo = memory_outputs crit
     in if list_all (\<lambda>i. i < length mf) idx \<and> list_all (\<lambda>i. i < length mo) idx
        then (None, net1\<lparr>criterion__adapt_criterion := crit
               \<lparr>memory_features :=
                  put_rows mf idx (map (\<lambda>i. map (\<lambda>x. (1 - momentum self) * x) (mf ! i)) idx),
                memory_outputs :=
                  put_rows mo idx (map (\<lambda>i. map (\<lambda>x. (1 - momentum self) * x) (mo ! i)) idx)\<rparr>\<rparr>)
        else (Some IndexError, net1))"
  using assms
  by (simp add: on_batch_end_def well_shaped_def target_idx_def mask_index_zip index_rows_def
      index_put_def smul_def comp_def Let_def split: prod.split)

lemma on_batch_end_ill_shaped:
  "\<not> well_shaped Xd \<Longrightarrow> \<exists>e. on_batch_end self net (Xd, b) = (Some e, net)"
  by (auto simp: on_batch_end_def well_shaped_def mask_index_def Let_def)

section \<open>Sums along the batch dimension\<close>

lemma length_vadd: "length u = d \<Longrightarrow> length v = d \<Longrightarrow> length (vadd u v) = d"
  by (simp add: vadd_def)

lemma nth_vadd: "j < length u \<Longrightarrow> j < length v \<Longrightarrow> vadd u v ! j = u ! j + v ! j"
  by (simp add: vadd_def)

lemma foldl_vadd:
  "length acc = d \<Longrightarrow> list_all (\<lambda>r. length r = d) rs \<Longrightarrow>
   length (foldl vadd acc rs) = d \<and>
   (\<forall>j<d. foldl vadd acc rs ! j = acc ! j + sum_list (map (\<lambda>r. r ! j) rs))"
proof (induction rs arbitrary: acc)
  case Nil
  then show ?case by simp
next
  case (Cons r rs)
  from Cons.prems have r: "length r = d" and rs: "list_all (\<lambda>r. length r = d) rs" by simp_all
  have acc': "length (vadd acc r) = d" using Cons.prems(1) r by (rule length_vadd)
  from Cons.IH [OF acc' rs] Cons.prems(1) r show ?case
    by (simp add: nth_vadd add.assoc)
qed

lemma sum_dim0_shape:
  assumes "rows \<noteq> []" and "list_all (\<lambda>r. length r = d) rows"
  shows "length (sum_dim0 rows) = d"
    and "j < d \<Longrightarrow> sum_dim0 rows ! j = sum_list (map (\<lambda>r. r ! j) rows)"
proof -
  from assms obtain r rs where rows: "rows = r # rs" by (cases rows) auto
  with assms have r: "length r = d" and rs: "list_all (\<lambda>r. length r = d) rs" by simp_all
  from foldl_vadd [OF r rs] rows show "length (sum_dim0 rows) = d" by simp
  from foldl_vadd [OF r rs] rows show "j < d \<Longrightarrow> sum_dim0 rows ! j = sum_list (map (\<lambda>r. r ! j) rows)"
    by simp
qed

section \<open>The renormalized squared softmax\<close>

lemma square_f32_nonneg: "0 \<le> square_f32 p"
  by (simp add: square_f32_def)

lemma square_f32_zero_iff: "square_f32 p = 0 \<longleftrightarrow> p\<^sup>2 \<le> float32_underflow"
  by (auto simp: square_f32_def float32_underflow_def)

lemma foldl_add_f32_Some:
  "foldl add_f32 (Some a) (map Some xs) = Some (a + sum_list xs)"
  by (induction xs arbitrary: a) (simp_all add: add_f32_def add.assoc)

lemma foldl_add_f32_None: "foldl add_f32 None ys = None"
  by (induction ys) (simp_all add: add_f32_def)

lemma foldl_add_f32_all_None:
  "ys \<noteq> [] \<Longrightarrow> list_all (\<lambda>y. y = None) ys \<Longrightarrow> foldl add_f32 a ys = None"
  by (cases ys) (simp_all add: add_f32_def foldl_add_f32_None split: option.split)

lemma sum_list_nonneg_zero_iff:
  fixes xs :: "real list"
  shows "(\<And>x. x \<in> set xs \<Longrightarrow> 0 \<le> x) \<Longrightarrow> sum_list xs = 0 \<longleftrightarrow> list_all (\<lambda>x. x = 0) xs"
  by (simp add: sum_list_nonneg_eq_0_iff list_all_iff)

lemma column_sum_squared_renorm:
  assumes ne: "output_t \<noteq> []" and shape: "list_all (\<lambda>r. length r = k) output_t" and j: "j < k"
  shows "column_sum (squared_renorm (F_softmax output_t)) j =
     (if list_all (\<lambda>row. (softmax_row row ! j)\<^sup>2 \<le> float32_underflow) output_t then None
      else Some 1)"
proof -
  define sq where "sq = map (map square_f32) (F_softmax output_t)"
  define col where "col = sum_dim0 sq"
  have sq_ne: "sq \<noteq> []" using ne by (simp add: sq_def F_softmax_def)
  have sq_shape: "list_all (\<lambda>r. length r = k) sq"
    using shape by (simp add: sq_def F_softmax_def softmax_row_def list_all_iff)
  have col_len: "length col = k" unfolding col_def by (rule sum_dim0_shape(1) [OF sq_ne sq_shape])
  have col_j: "col ! j = sum_list (map (\<lambda>r. r ! j) sq)"
    unfolding col_def using j by (rule sum_dim0_shape(2) [OF sq_ne sq_shape])
  have entries: "map (\<lambda>r. r ! j) sq = map (\<lambda>row. square_f32 (softmax_row row ! j)) output_t"
    using shape j by (simp add: sq_def F_softmax_def softmax_row_def list_all_iff)
  have res: "squared_renorm (F_softmax output_t) = map (\<lambda>row. map2 div_f32 row col) sq"
    by (simp add: squared_renorm_def sq_def col_def Let_def)
  have col_entries: "map (\<lambda>row. row ! j) (squared_renorm (F_softmax output_t))
      = map (\<lambda>r. div_f32 (r ! j) (col ! j)) sq"
    unfolding res using sq_shape col_len j by (simp add: list_all_iff)
  have zero_iff: "col ! j = 0 \<longleftrightarrow>
      list_all (\<lambda>row. (softmax_row row ! j)\<^sup>2 \<le> float32_underflow) output_t"
  proof -
    have "col ! j = 0 \<longleftrightarrow> list_all (\<lambda>x. x = 0) (map (\<lambda>r. r ! j) sq)"
      unfolding col_j by (rule sum_list_nonneg_zero_iff) (auto simp: entries square_f32_nonneg)
    then show ?thesis by (simp add: entries list_all_iff square_f32_zero_iff)
  qed
  show ?thesis
  proof (cases "col ! j = 0")
    case True
    have "list_all (\<lambda>y. y = None) (map (\<lambda>r. div_f32 (r ! j) (col ! j)) sq)"
      by (simp add: True div_f32_def list_all_iff)
    then have "column_sum (squared_renorm (F_softmax output_t)) j = None"
      unfolding column_sum_def col_entries using sq_ne by (intro foldl_add_f32_all_None) simp_all
    with True zero_iff show ?thesis by simp
  next
    case False
    have "map (\<lambda>r. div_f32 (r ! j) (col ! j)) sq = map Some (map (\<lambda>r. r ! j / col ! j) sq)"
      using False by (simp add: div_f32_def)
    then have "column_sum (squared_renorm (F_softmax output_t)) j
        = Some (sum_list (map (\<lambda>r. r ! j / col ! j) sq))"
      unfolding column_sum_def col_entries by (simp only: foldl_add_f32_Some) simp
    also have "sum_list (map (\<lambda>r. r ! j / col ! j) sq) = sum_list (map (\<lambda>r. r ! j) sq) / col ! j"
      by (induction sq) (simp_all add: add_divide_distrib)
    also have "\<dots> = 1" using False col_j by simp
    finally show ?thesis using False zero_iff by simp
  qed
qed

lemma exp_100_large: "2 ^ 100 \<le> exp (100 :: real)"
proof -
  have "(2 :: real) \<le> exp 1" using exp_ge_add_one_self [of "1 :: real"] by simp
  then have "(2 :: real) ^ 100 \<le> exp 1 ^ 100" by (intro power_mono) simp_all
  also have "\<dots> = exp (of_nat 100 * (1 :: real))" by (simp only: exp_of_nat_mult)
  finally show ?thesis by simp
qed

lemma softmax_0_100_underflows: "(softmax_row [0, 100] ! 0)\<^sup>2 \<le> float32_underflow"
proof -
  have v: "softmax_row [0, 100] ! 0 = 1 / (1 + exp 100)" by (simp add: softmax_row_def)
  have "1 / (1 + exp (100 :: real)) \<le> 1 / 2 ^ 100"
    using exp_100_large by (intro divide_left_mono) (simp_all add: add_pos_pos)
  moreover have "0 \<le> 1 / (1 + exp (100 :: real))" by (simp add: add_nonneg_nonneg)
  ultimately have "(1 / (1 + exp (100 :: real)))\<^sup>2 \<le> (1 / 2 ^ 100)\<^sup>2"
    by (intro power_mono) simp_all
  also have "\<dots> \<le> float32_underflow" by (simp add: float32_underflow_def power_divide)
  finally show ?thesis by (simp add: v)
qed

text \<open>
  Claim C5, as stated, fails: in a batch of two rows with the logits \<open>[0, 100]\<close> the squared
  softmax outputs of column 0 underflow to zero in both rows, the column sum of the squares
  is zero, and the renormalized column is no number; neither is its sum.
\<close>

theorem underflowing_column_is_nan:
  "column_sum (squared_renorm (F_softmax [[0, 100], [0, 100]])) 0 = None
   \<and> column_sum (squared_renorm (F_softmax [[0, 100], [0, 100]])) 0 \<noteq> Some 1"
  using column_sum_squared_renorm [of "[[0, 100], [0, 100]]" 2 0] softmax_0_100_underflows
  by simp

text \<open>
  Claim C5, amended. For a batch with at least one target row and logits of width \<open>k\<close>, the
  pseudo-probabilities have column sum 1 in every class column in which the squared softmax
  output of at least one row does not underflow to zero; in a column where it underflows in
  every row, the column sum is no number.
\<close>

theorem renormalized_column_sum:
  assumes "output_t \<noteq> []" and "list_all (\<lambda>r. length r = k) output_t" and "j < k"
  shows "column_sum (squared_renorm (F_softmax output_t)) j =
     (if list_all (\<lambda>row. (softmax_row row ! j)\<^sup>2 \<le> float32_underflow) output_t then None
      else Some 1)"
  using assms by (rule column_sum_squared_renorm)

lemma softmax_ln3: "softmax_row [0, ln 3] = [1 / 4, 3 / 4]"
  by (simp add: softmax_row_def)

lemma softmax_00: "softmax_row [0, 0] = [1 / 2, 1 / 2]"
  by (simp add: softmax_row_def)

theorem renormalized_column_sum_witness:
  "[[0, ln 3], [0, 0 :: real]] \<noteq> []
   \<and> list_all (\<lambda>r. length r = 2) [[0, ln 3], [0, 0 :: real]]
   \<and> (0 :: nat) < 2
   \<and> squared_renorm (F_softmax [[0, ln 3], [0, 0]])
       = [[Some (1 / 5), Some (9 / 13)], [Some (4 / 5), Some (4 / 13)]]
   \<and> column_sum (squared_renorm (F_softmax [[0, ln 3], [0, 0]])) 0 = Some 1"
proof -
  have ne: "[[0, ln 3], [0, 0 :: real]] \<noteq> []" by simp
  have sh: "list_all (\<lambda>r. length r = 2) [[0, ln 3], [0, 0 :: real]]" by simp
  have j: "(0 :: nat) < 2" by simp
  have val: "squared_renorm (F_softmax [[0, ln 3], [0, 0]])
       = [[Some (1 / 5), Some (9 / 13)], [Some (4 / 5), Some (4 / 13)]]"
    by (simp add: squared_renorm_def F_softmax_def softmax_ln3 softmax_00 square_f32_def
        float32_underflow_def div_f32_def vadd_def Let_def power2_eq_square)
  have big: "\<not> list_all (\<lambda>row. (softmax_row row ! 0)\<^sup>2 \<le> float32_underflow)
      [[0, ln 3], [0, 0]]"
    by (simp add: softmax_ln3 softmax_00 float32_underflow_def power2_eq_square)
  from renormalized_column_sum [OF ne sh j] big
  have "column_sum (squared_renorm (F_softmax [[0, ln 3], [0, 0]])) 0 = Some 1" by simp
  with ne sh j val show ?thesis by blast
qed

section \<open>The memory bank: frame, no-op, eval mode\<close>

text \<open>
  Claim C6. The batch-end update of the memory bank changes only rows whose position is the
  sample index of a target row of the batch: every row at a position \<open>j\<close> that is not such
  an index is the same after the call as before it, in \<^verbatim>\<open>memory_features\<close> and in
  \<^verbatim>\<open>memory_outputs\<close>, and both memories keep their number of rows. This holds whether the
  call returns or raises.
\<close>

theorem memory_bank_frame:
  assumes "j \<notin> set (target_idx Xd)"
  shows "memory_features (criterion__adapt_criterion (snd (on_batch_end self net (Xd, b)))) ! j
           = memory_features (criterion__adapt_criterion net) ! j
       \<and> memory_outputs (criterion__adapt_criterion (snd (on_batch_end self net (Xd, b)))) ! j
           = memory_outputs (criterion__adapt_criterion net) ! j
       \<and> length (memory_features (criterion__adapt_criterion (snd (on_batch_end self net (Xd, b)))))
           = length (memory_features (criterion__adapt_criterion net))
       \<and> length (memory_outputs (criterion__adapt_criterion (snd (on_batch_end self net (Xd, b)))))
           = length (memory_outputs (criterion__adapt_criterion net))"
proof (cases "well_shaped Xd")
  case True
  show ?thesis
    using assms by (simp add: on_batch_end_unfold [OF True] Let_def put_rows_other length_put_rows)
next
  case False
  from on_batch_end_ill_shaped [OF False, of self net b]
  obtain e where "on_batch_end self net (Xd, b) = (Some e, net)" by blast
  then show ?thesis by simp
qed

text \<open>
  Claim C8. On a batch without target rows (every domain indicator is non-negative) the
  batch-end update raises no error and leaves the criterion, hence every row of
  \<^verbatim>\<open>memory_features\<close> and \<^verbatim>\<open>memory_outputs\<close>, as it was.
\<close>

theorem no_target_rows_noop:
  assumes "well_shaped Xd" and "list_all (\<lambda>d. d \<ge> 0) (sample_domain Xd)"
  shows "fst (on_batch_end self net (Xd, b)) = None
       \<and> criterion__adapt_criterion (snd (on_batch_end self net (Xd, b)))
           = criterion__adapt_criterion net"
proof -
  have "filter (\<lambda>(d, i). d < 0) (zip (sample_domain Xd) (sample_idx Xd)) = []"
    using assms(2) by (auto simp: filter_empty_conv list_all_iff dest!: set_zip_leftD)
  then have "target_idx Xd = []" by (simp add: target_idx_def)
  then show ?thesis
    by (simp add: on_batch_end_unfold [OF assms(1)] Let_def)
qed

text \<open>
  Claim C10. After the batch-end update the module is in eval mode, whatever its mode
  before the call: on every well-shaped batch (also when an index error follows the
  switch), and on every call that returns without an error. The hook never switches back.
\<close>

theorem module_left_in_eval:
  "(well_shaped Xd \<longrightarrow> \<not> training (net_module (snd (on_batch_end self net (Xd, b)))))
 \<and> (fst (on_batch_end self net (Xd, b)) = None \<longrightarrow>
      \<not> training (net_module (snd (on_batch_end self net (Xd, b)))))"
proof (cases "well_shaped Xd")
  case True
  then show ?thesis by (simp add: on_batch_end_unfold [OF True] Let_def)
next
  case False
  from on_batch_end_ill_shaped [OF False, of self net b]
  obtain e where "on_batch_end self net (Xd, b) = (Some e, net)" by blast
  with False show ?thesis by simp
qed

text \<open>
  Claim C9. Two batch-end updates that start from the same \<^verbatim>\<open>memory_features\<close> and
  \<^verbatim>\<open>memory_outputs\<close>, with the same momentum and the same target sample indices, end in the
  same \<^verbatim>\<open>memory_features\<close> and \<^verbatim>\<open>memory_outputs\<close> and raise the same error or none,
  whatever the modules compute and whatever the inputs of the two batches are; and when
  the call returns, the row written at every target sample index is the old row times
  \<open>1 - momentum\<close>, in both memories.
\<close>

theorem written_rows_ignore_batch_values:
  fixes net1 net2 :: "('d, 'x, 'f) net"
  assumes "well_shaped Xd1" and "well_shaped Xd2"
    and "target_idx Xd1 = target_idx Xd2"
    and "memory_features (criterion__adapt_criterion net1)
           = memory_features (criterion__adapt_criterion net2)"
    and "memory_outputs (criterion__adapt_criterion net1)
           = memory_outputs (criterion__adapt_criterion net2)"
  shows "fst (on_batch_end self net1 (Xd1, b1)) = fst (on_batch_end self net2 (Xd2, b2))
       \<and> memory_features (criterion__adapt_criterion (snd (on_batch_end self net1 (Xd1, b1))))
           = memory_features (criterion__adapt_criterion (snd (on_batch_end self net2 (Xd2, b2))))
       \<and> memory_outputs (criterion__adapt_criterion (snd (on_batch_end self net1 (Xd1, b1))))
           = memory_outputs (criterion__adapt_criterion (snd (on_batch_end self net2 (Xd2, b2))))
       \<and> (fst (on_batch_end self net1 (Xd1, b1)) = None \<longrightarrow>
            (\<forall>j \<in> set (target_idx Xd1).
               memory_features (criterion__adapt_criterion (snd (on_batch_end self net1 (Xd1, b1)))) ! j
                 = map (\<lambda>x. (1 - momentum self) * x) (memory_features (criterion__adapt_criterion net1) ! j)
             \<and> memory_outputs (criterion__adapt_criterion (snd (on_batch_end self net1 (Xd1, b1)))) ! j
                 = map (\<lambda>x. (1 - momentum self) * x) (memory_outputs (criterion__adapt_criterion net1) ! j)))"
  using assms(3,4,5)
  by (auto simp: on_batch_end_unfold [OF assms(1)] on_batch_end_unfold [OF assms(2)] Let_def
      put_rows_map list_all_iff)

theorem memory_bank_frame_witness:
  "1 \<notin> set (target_idx example_batch_X)
   \<and> memory_features (criterion__adapt_criterion
        (snd (on_batch_end \<lparr>momentum = 7 / 10\<rparr> example_net (example_batch_X, ())))) ! 1 = [0, 1]
   \<and> memory_outputs (criterion__adapt_criterion
        (snd (on_batch_end \<lparr>momentum = 7 / 10\<rparr> example_net (example_batch_X, ())))) ! 1 = [1, 0]
   \<and> length (memory_features (criterion__adapt_criterion
        (snd (on_batch_end \<lparr>momentum = 7 / 10\<rparr> example_net (example_batch_X, ()))))) = 3"
  using memory_bank_frame [of 1 example_batch_X "\<lparr>momentum = 7 / 10\<rparr>" example_net "()"]
  by (simp add: target_idx_def example_batch_X_def example_net_def)

theorem no_target_rows_noop_witness:
  "well_shaped example_source_batch_X
   \<and> list_all (\<lambda>d. d \<ge> 0) (sample_domain example_source_batch_X)
   \<and> fst (on_batch_end \<lparr>momentum = 7 / 10\<rparr> example_net (example_source_batch_X, ())) = None
   \<and> memory_features (criterion__adapt_criterion
        (snd (on_batch_end \<lparr>momentum = 7 / 10\<rparr> example_net (example_source_batch_X, ()))))
       = [[1, 0], [0, 1], [3, 4]]"
proof -
  have ws: "well_shaped example_source_batch_X"
    by (simp add: well_shaped_def example_source_batch_X_def)
  have src: "list_all (\<lambda>d. d \<ge> 0) (sample_domain example_source_batch_X)"
    by (simp add: example_source_batch_X_def)
  show ?thesis
    using ws src no_target_rows_noop [OF ws src, of "\<lparr>momentum = 7 / 10\<rparr>" example_net "()"]
    by (simp add: example_net_def)
qed

theorem module_left_in_eval_witness:
  "well_shaped example_batch_X
   \<and> training (net_module example_net)
   \<and> fst (on_batch_end \<lparr>momentum = 7 / 10\<rparr> example_net (example_batch_X, ())) = None
   \<and> \<not> training (net_module
        (snd (on_batch_end \<lparr>momentum = 7 / 10\<rparr> example_net (example_batch_X, ()))))"
proof -
  have ws: "well_shaped example_batch_X"
    by (simp add: well_shaped_def example_batch_X_def)
  have ok: "fst (on_batch_end \<lparr>momentum = 7 / 10\<rparr> example_net (example_batch_X, ())) = None"
    unfolding on_batch_end_unfold [OF ws]
    by (simp add: Let_def target_idx_def example_batch_X_def example_net_def)
  show ?thesis
    using ws ok module_left_in_eval [of example_batch_X "\<lparr>momentum = 7 / 10\<rparr>" example_net "()"]
    by (simp add: example_net_def)
qed

theorem written_rows_ignore_batch_values_witness:
  "well_shaped example_batch_X \<and> well_shaped example_batch_X'
   \<and> target_idx example_batch_X = target_idx example_batch_X'
   \<and> memory_features (criterion__adapt_criterion example_net)
       = memory_features (criterion__adapt_criterion example_net')
   \<and> memory_outputs (criterion__adapt_criterion example_net)
       = memory_outputs (criterion__adapt_criterion example_net')
   \<and> forward (net_module example_net) (target_inputs example_batch_X)
       \<noteq> forward (net_module example_net') (target_inputs example_batch_X')
   \<and> fst (on_batch_end \<lparr>momentum = 7 / 10\<rparr> example_net (example_batch_X, ())) = None
   \<and> memory_features (criterion__adapt_criterion
        (snd (on_batch_end \<lparr>momentum = 7 / 10\<rparr> example_net (example_batch_X, ()))))
       = memory_features (criterion__adapt_criterion
        (snd (on_batch_end \<lparr>momentum = 7 / 10\<rparr> example_net' (example_batch_X', ()))))
   \<and> memory_outputs (criterion__adapt_criterion
        (snd (on_batch_end \<lparr>momentum = 7 / 10\<rparr> example_net (example_batch_X, ()))))
       = memory_outputs (criterion__adapt_criterion
        (snd (on_batch_end \<lparr>momentum = 7 / 10\<rparr> example_net' (example_batch_X', ()))))
   \<and> memory_features (criterion__adapt_criterion
        (snd (on_batch_end \<lparr>momentum = 7 / 10\<rparr> example_net (example_batch_X, ())))) ! 2
       = [9 / 10, 12 / 10]"
proof -
  have ws: "well_shaped example_batch_X"
    by (simp add: well_shaped_def example_batch_X_def)
  have ws': "well_shaped example_batch_X'"
    by (simp add: well_shaped_def example_batch_X'_def)
  have idx: "target_idx example_batch_X = target_idx example_batch_X'"
    by (simp add: target_idx_def example_batch_X_def example_batch_X'_def)
  have mf: "memory_features (criterion__adapt_criterion example_net)
      = memory_features (criterion__adapt_criterion example_net')"
    and mo: "memory_outputs (criterion__adapt_criterion example_net)
      = memory_outputs (criterion__adapt_criterion example_net')"
    by (simp_all add: example_net'_def)
  have fw: "forward (net_module example_net) (target_inputs example_batch_X)
       \<noteq> forward (net_module example_net') (target_inputs example_batch_X')"
    by (simp add: example_net'_def example_net_def target_inputs_def example_batch_X_def
        example_batch_X'_def)
  have ok: "fst (on_batch_end \<lparr>momentum = 7 / 10\<rparr> example_net (example_batch_X, ())) = None"
    unfolding on_batch_end_unfold [OF ws]
    by (simp add: Let_def target_idx_def example_batch_X_def example_net_def)
  have two: "2 \<in> set (target_idx example_batch_X)"
    by (simp add: target_idx_def example_batch_X_def)
  from written_rows_ignore_batch_values [OF ws ws' idx mf mo,
      of "\<lparr>momentum = 7 / 10\<rparr>" "()" "()"] ok two
  have "memory_features (criterion__adapt_criterion
        (snd (on_batch_end \<lparr>momentum = 7 / 10\<rparr> example_net (example_batch_X, ()))))
       = memory_features (criterion__adapt_criterion
        (snd (on_batch_end \<lparr>momentum = 7 / 10\<rparr> example_net' (example_batch_X', ()))))"
    and "memory_outputs (criterion__adapt_criterion
        (snd (on_batch_end \<lparr>momentum = 7 / 10\<rparr> example_net (example_batch_X, ()))))
       = memory_outputs (criterion__adapt_criterion
        (snd (on_batch_end \<lparr>momentum = 7 / 10\<rparr> example_net' (example_batch_X', ()))))"
    and "memory_features (criterion__adapt_criterion
        (snd (on_batch_end \<lparr>momentum = 7 / 10\<rparr> example_net (example_batch_X, ())))) ! 2
       = map (\<lambda>x. (1 - momentum \<lparr>momentum = 7 / 10\<rparr>) * x)
           (memory_features (criterion__adapt_criterion example_net) ! 2)"
    by blast+
  then show ?thesis
    using ws ws' idx mf mo fw ok by (simp add: example_net_def)
qed

section \<open>What the epoch-begin hook computes\<close>

lemma mask_index_labels:
  "length ys = length xs \<Longrightarrow>
   mask_index xs (map P ys) = Inr (map fst (filter (\<lambda>(x, y). P y) (zip xs ys)))"
  unfolding mask_index_def
  by (induction ys xs rule: list_induct2) auto

lemma mask_count: "(0 < length (filter id (map (\<lambda>l. l = c) ys))) = (c \<in> set ys)"
  by (auto simp: filter_map comp_def id_def filter_empty_conv)

lemma centroids_loop_eq:
  assumes "length features_s = length y_s"
  shows "centroids_loop features_s y_s cs acc =
    Inr (acc @ map (\<lambda>c. sum_dim0 (F_normalize (class_features_of features_s y_s (int c))))
                (filter (\<lambda>c. int c \<in> set y_s) cs))"
proof (induction cs arbitrary: acc)
  case Nil
  then show ?case by simp
next
  case (Cons c cs)
  have m: "mask_index features_s (map (\<lambda>l. l = int c) y_s)
      = Inr (class_features_of features_s y_s (int c))"
    using assms by (simp add: mask_index_labels class_features_of_def)
  show ?case
    by (auto simp: Let_def mask_count m Cons.IH filter_empty_conv)
qed

lemma source_split:
  "length ds = length xs \<Longrightarrow> length xs = length ys \<Longrightarrow>
   map snd (filter (\<lambda>(d, x). P d) (zip ds xs))
     = map fst (map snd (filter (\<lambda>(d, s). P d) (zip ds (zip xs ys))))
 \<and> map snd (filter (\<lambda>(d, y). P d) (zip ds ys))
     = map snd (map snd (filter (\<lambda>(d, s). P d) (zip ds (zip xs ys))))"
  by (induction ds xs ys rule: list_induct3) auto

lemma target_kmeans_init_unfold:
  assumes dom: "length (sample_domain Xd) = length (X_X Xd)" and lab: "length y = length (X_X Xd)"
    and feat: "length (predict_features net (map fst (source_samples Xd y)))
                 = length (source_samples Xd y)"
  shows "target_kmeans_init net Xd y =
    (let features_s = predict_features net (map fst (source_samples Xd y));
         y_s = map snd (source_samples Xd y);
         cs = map (\<lambda>c. sum_dim0 (F_normalize (class_features_of features_s y_s (int c))))
                (visited_classes y_s)
     in if cs = [] then Inl RuntimeError
        else Inr (\<lparr>n_clusters = length (remdups y_s), random_state = 0,
                   initial_centroids = cs, fitted = None\<rparr>,
                  predict_features net (target_inputs Xd)))"
proof -
  have Xs: "mask_index (X_X Xd) (map (\<lambda>d. d \<ge> 0) (sample_domain Xd))
      = Inr (map fst (source_samples Xd y))"
    using source_split [OF dom lab [symmetric], of "\<lambda>d. d \<ge> 0"]
    by (simp add: mask_index_zip [OF dom] source_samples_def)
  have ys: "mask_index y (map (\<lambda>d. d \<ge> 0) (sample_domain Xd))
      = Inr (map snd (source_samples Xd y))"
    using source_split [OF dom lab [symmetric], of "\<lambda>d. d \<ge> 0"] dom lab
    by (simp add: mask_index_zip source_samples_def)
  have Xt: "mask_index (X_X Xd) (map (\<lambda>d. d < 0) (sample_domain Xd))
      = Inr (target_inputs Xd)"
    by (simp add: mask_index_zip [OF dom] target_inputs_def)
  have len: "length (predict_features net (map fst (source_samples Xd y)))
      = length (map snd (source_samples Xd y))"
    using feat by simp
  show ?thesis
    unfolding target_kmeans_init_def Xs ys Xt
    by (simp add: Let_def centroids_loop_eq [OF len] torch_stack_def visited_classes_def)
qed

section \<open>The momentum update\<close>

lemma example_batch_well_shaped: "well_shaped example_batch_X"
  by (simp add: well_shaped_def example_batch_X_def)

text \<open>
  Claim C1. The specification asks for the update \<open>m * v1 + (1 - m) * v0\<close> of every touched
  row. The code writes \<open>(1 - m) * v0\<close>: on the example batch with momentum \<open>1/2\<close>, row 0 of
  \<^verbatim>\<open>memory_features\<close> goes from \<open>[1, 0]\<close> to \<open>[1/2, 0]\<close> where the specified update with the
  new normalized feature \<open>[0, 1]\<close> is \<open>[1/2, 1/2]\<close>; a second update with the same batch
  gives \<open>[1/4, 0]\<close>, moving towards zero and not towards the new value. Row 0 of
  \<^verbatim>\<open>memory_outputs\<close> goes from \<open>[1/2, 1/2]\<close> to \<open>[1/4, 1/4]\<close> where the specified update is
  \<open>[1/2, 1/2]\<close>.
\<close>

theorem ema_second_term_dropped:
  "memory_features (criterion__adapt_criterion
      (snd (on_batch_end \<lparr>momentum = 1 / 2\<rparr> example_net (example_batch_X, ())))) ! 0 = [1 / 2, 0]
   \<and> spec_ema_update (1 / 2) (memory_features (criterion__adapt_criterion example_net) ! 0)
        (F_normalize (snd (forward (net_module example_net) (target_inputs example_batch_X))) ! 0)
       = [1 / 2, 1 / 2]
   \<and> memory_features (criterion__adapt_criterion
      (snd (on_batch_end \<lparr>momentum = 1 / 2\<rparr>
        (snd (on_batch_end \<lparr>momentum = 1 / 2\<rparr> example_net (example_batch_X, ())))
        (example_batch_X, ())))) ! 0 = [1 / 4, 0]
   \<and> memory_outputs (criterion__adapt_criterion
      (snd (on_batch_end \<lparr>momentum = 1 / 2\<rparr> example_net (example_batch_X, ())))) ! 0 = [1 / 4, 1 / 4]
   \<and> squared_renorm (F_softmax
        (fst (forward (net_module example_net) (target_inputs example_batch_X)))) ! 0
       = [Some (1 / 2), Some (1 / 2)]
   \<and> spec_ema_update (1 / 2) (memory_outputs (criterion__adapt_criterion example_net) ! 0)
        [1 / 2, 1 / 2]
       = [1 / 2, 1 / 2]"
proof -
  have a: "memory_features (criterion__adapt_criterion
      (snd (on_batch_end \<lparr>momentum = 1 / 2\<rparr> example_net (example_batch_X, ())))) ! 0 = [1 / 2, 0]"
    unfolding on_batch_end_unfold [OF example_batch_well_shaped]
    by (simp add: Let_def target_idx_def example_batch_X_def example_net_def)
  have b: "spec_ema_update (1 / 2) (memory_features (criterion__adapt_criterion example_net) ! 0)
        (F_normalize (snd (forward (net_module example_net) (target_inputs example_batch_X))) ! 0)
       = [1 / 2, 1 / 2]"
    by (simp add: spec_ema_update_def vadd_def example_net_def target_inputs_def
        example_batch_X_def F_normalize_def normalize_row_def l2_norm_def normalize_eps_def)
  have c: "memory_features (criterion__adapt_criterion
      (snd (on_batch_end \<lparr>momentum = 1 / 2\<rparr>
        (snd (on_batch_end \<lparr>momentum = 1 / 2\<rparr> example_net (example_batch_X, ())))
        (example_batch_X, ())))) ! 0 = [1 / 4, 0]"
    unfolding on_batch_end_unfold [OF example_batch_well_shaped]
    by (simp add: Let_def target_idx_def example_batch_X_def example_net_def)
  have d: "memory_outputs (criterion__adapt_criterion
      (snd (on_batch_end \<lparr>momentum = 1 / 2\<rparr> example_net (example_batch_X, ())))) ! 0 = [1 / 4, 1 / 4]"
    unfolding on_batch_end_unfold [OF example_batch_well_shaped]
    by (simp add: Let_def target_idx_def example_batch_X_def example_net_def)
  have e: "squared_renorm (F_softmax
        (fst (forward (net_module example_net) (target_inputs example_batch_X)))) ! 0
       = [Some (1 / 2), Some (1 / 2)]"
    by (simp add: example_net_def target_inputs_def example_batch_X_def F_softmax_def
        softmax_row_def squared_renorm_def square_f32_def float32_underflow_def div_f32_def
        vadd_def Let_def power2_eq_square)
  have f: "spec_ema_update (1 / 2) (memory_outputs (criterion__adapt_criterion example_net) ! 0)
        [1 / 2, 1 / 2]
       = [1 / 2, 1 / 2]"
    by (simp add: spec_ema_update_def vadd_def example_net_def)
  from a b c d e f show ?thesis by blast
qed

section \<open>The class centroids\<close>




lemma example_dataset_sources:
  "source_samples example_dataset_X example_dataset_y
     = [([1, 0], 0), ([2, 0], 0), ([0, 1], 1), ([0, 2], 1), ([1, 0], 0)]"
  by (simp add: source_samples_def example_dataset_X_def example_dataset_y_def numeral_eq_Suc)



section \<open>Norms of the centroids\<close>














lemma upt_2: "[0..<2] = [0, Suc 0]"
  by (simp add: numeral_2_eq_2)

lemma example_dataset_init:
  "target_kmeans_init example_net example_dataset_X example_dataset_y =
     Inr (\<lparr>n_clusters = 2, random_state = 0, initial_centroids = [[3, 0], [0, 2]],
           fitted = None\<rparr>, replicate 10 [1, 1])"
proof -
  have dom: "length (sample_domain example_dataset_X) = length (X_X example_dataset_X)"
    by (simp add: example_dataset_X_def)
  have lab: "length example_dataset_y = length (X_X example_dataset_X)"
    by (simp add: example_dataset_X_def example_dataset_y_def)
  have feat: "length (predict_features example_net
        (map fst (source_samples example_dataset_X example_dataset_y)))
      = length (source_samples example_dataset_X example_dataset_y)"
    by (simp add: example_net_def)
  have tgt: "target_inputs example_dataset_X = replicate 10 [1, 1]"
    by (simp add: target_inputs_def example_dataset_X_def numeral_eq_Suc)
  show ?thesis
    unfolding target_kmeans_init_unfold [OF dom lab feat] example_dataset_sources tgt
    by (simp add: Let_def example_net_def visited_classes_def upt_2 class_features_of_def
        F_normalize_def normalize_row_def l2_norm_def normalize_eps_def vadd_def)
qed






lemma example_gap_sources:
  "source_samples example_gap_X example_gap_y = [([2, 0], 0), ([0, 2], 2)]"
  by (simp add: source_samples_def example_gap_X_def example_gap_y_def)

section \<open>A class past a gap in the labels\<close>

lemma example_gap_init:
  "target_kmeans_init example_net example_gap_X example_gap_y =
     Inr (\<lparr>n_clusters = 2, random_state = 0, initial_centroids = [[1, 0]], fitted = None\<rparr>,
          [[1, 1]])"
proof -
  have dom: "length (sample_domain example_gap_X) = length (X_X example_gap_X)"
    by (simp add: example_gap_X_def)
  have lab: "length example_gap_y = length (X_X example_gap_X)"
    by (simp add: example_gap_X_def example_gap_y_def)
  have feat: "length (predict_features example_net
        (map fst (source_samples example_gap_X example_gap_y)))
      = length (source_samples example_gap_X example_gap_y)"
    by (simp add: example_net_def)
  have tgt: "target_inputs example_gap_X = [[1, 1]]"
    by (simp add: target_inputs_def example_gap_X_def)
  show ?thesis
    unfolding target_kmeans_init_unfold [OF dom lab feat] example_gap_sources tgt
    by (simp add: Let_def example_net_def visited_classes_def upt_2 class_features_of_def
        F_normalize_def normalize_row_def l2_norm_def normalize_eps_def)
qed

lemma example_gap_relabelled_init:
  "target_kmeans_init example_net example_gap_X [0, 1, - 1] =
     Inr (\<lparr>n_clusters = 2, random_state = 0, initial_centroids = [[1, 0], [0, 1]],
           fitted = None\<rparr>, [[1, 1]])"
proof -
  have dom: "length (sample_domain example_gap_X) = length (X_X example_gap_X)"
    by (simp add: example_gap_X_def)
  have lab: "length [0, 1, - 1 :: int] = length (X_X example_gap_X)"
    by (simp add: example_gap_X_def)
  have src: "source_samples example_gap_X [0, 1, - 1] = [([2, 0], 0), ([0, 2], 1)]"
    by (simp add: source_samples_def example_gap_X_def)
  have feat: "length (predict_features example_net
        (map fst (source_samples example_gap_X [0, 1, - 1])))
      = length (source_samples example_gap_X [0, 1, - 1])"
    by (simp add: example_net_def)
  have tgt: "target_inputs example_gap_X = [[1, 1]]"
    by (simp add: target_inputs_def example_gap_X_def)
  show ?thesis
    unfolding target_kmeans_init_unfold [OF dom lab feat] src tgt
    by (simp add: Let_def example_net_def visited_classes_def upt_2 class_features_of_def
        F_normalize_def normalize_row_def l2_norm_def normalize_eps_def)
qed

text \<open>
  Claim C2. With the classes 0, 1, 2 and no source sample of class 1, the specification asks
  for \<open>k = 2\<close> and two initial centroids, for class 0 and class 2. The code counts two
  distinct labels, visits the classes 0 and 1 only, and hands the clusterer \<open>k = 2\<close> with
  the single centroid of class 0: class 2 has a source sample and gets no centroid.
\<close>

theorem gap_class_loses_centroid:
  "target_kmeans_init example_net example_gap_X example_gap_y =
     Inr (\<lparr>n_clusters = 2, random_state = 0, initial_centroids = [[1, 0]], fitted = None\<rparr>,
          [[1, 1]])
   \<and> map snd (source_samples example_gap_X example_gap_y) = [0, 2]
   \<and> target_kmeans (criterion__adapt_criterion (snd (on_epoch_begin fit_records example_net
        \<lparr>dataset_X = (example_gap_X, example_gap_y), dataset_y = None\<rparr>)))
      = Some \<lparr>n_clusters = 2, random_state = 0, initial_centroids = [[1, 0]], fitted = Some ()\<rparr>"
proof -
  have "prepare_input example_net (example_gap_X, example_gap_y) = (example_gap_X, example_gap_y)"
    by (simp add: example_net_def)
  then have "target_kmeans (criterion__adapt_criterion (snd (on_epoch_begin fit_records example_net
        \<lparr>dataset_X = (example_gap_X, example_gap_y), dataset_y = None\<rparr>)))
      = Some \<lparr>n_clusters = 2, random_state = 0, initial_centroids = [[1, 0]], fitted = Some ()\<rparr>"
    by (simp add: on_epoch_begin_def example_gap_init fit_records_def)
  with example_gap_init show ?thesis by (simp add: example_gap_sources)
qed

text \<open>
  Claim C4. The specification asks for the sum of the normalized features as the centroid
  of every class with a source sample. With the source labels 0 and 2, class 2 has a source
  sample, and the sum of its normalized features is \<open>[0, 1]\<close>, but the clusterer the hook
  stores has the single centroid \<open>[1, 0]\<close> of class 0: class 2 is never visited. On the
  training set of the claim (three source samples of class 0, two of class 1, ten target
  samples) the hook does store two centroids, the sums of both classes, with \<open>k = 2\<close>.
\<close>

theorem class_past_gap_gets_no_centroid:
  "map snd (source_samples example_gap_X example_gap_y) = [0, 2]
   \<and> spec_class_centroid 2
        (predict_features example_net (map fst (source_samples example_gap_X example_gap_y)))
        [0, 2] 2 = [0, 1]
   \<and> target_kmeans (criterion__adapt_criterion (snd (on_epoch_begin fit_records example_net
        \<lparr>dataset_X = (example_gap_X, example_gap_y), dataset_y = None\<rparr>)))
      = Some \<lparr>n_clusters = 2, random_state = 0, initial_centroids = [[1, 0]], fitted = Some ()\<rparr>
   \<and> [0, 1] \<notin> set [[1, 0 :: real]]
   \<and> target_kmeans (criterion__adapt_criterion (snd (on_epoch_begin fit_records example_net
        \<lparr>dataset_X = (example_dataset_X, example_dataset_y), dataset_y = None\<rparr>)))
      = Some \<lparr>n_clusters = 2, random_state = 0, initial_centroids = [[3, 0], [0, 2]],
              fitted = Some ()\<rparr>"
proof -
  have a: "map snd (source_samples example_gap_X example_gap_y) = [0, 2]"
    by (simp add: example_gap_sources)
  have b: "spec_class_centroid 2
        (predict_features example_net (map fst (source_samples example_gap_X example_gap_y)))
        [0, 2] 2 = [0, 1]"
    by (simp add: example_gap_sources example_net_def spec_class_centroid_def normalize_row_def
        l2_norm_def normalize_eps_def upt_2)
  have "prepare_input example_net (example_gap_X, example_gap_y) = (example_gap_X, example_gap_y)"
    by (simp add: example_net_def)
  then have c: "target_kmeans (criterion__adapt_criterion (snd (on_epoch_begin fit_records example_net
        \<lparr>dataset_X = (example_gap_X, example_gap_y), dataset_y = None\<rparr>)))
      = Some \<lparr>n_clusters = 2, random_state = 0, initial_centroids = [[1, 0]], fitted = Some ()\<rparr>"
    by (simp add: on_epoch_begin_def example_gap_init fit_records_def)
  have "prepare_input example_net (example_dataset_X, example_dataset_y)
      = (example_dataset_X, example_dataset_y)"
    by (simp add: example_net_def)
  then have d: "target_kmeans (criterion__adapt_criterion (snd (on_epoch_begin fit_records example_net
        \<lparr>dataset_X = (example_dataset_X, example_dataset_y), dataset_y = None\<rparr>)))
      = Some \<lparr>n_clusters = 2, random_state = 0, initial_centroids = [[3, 0], [0, 2]],
              fitted = Some ()\<rparr>"
    by (simp add: on_epoch_begin_def example_dataset_init fit_records_def)
  from a b c d show ?thesis by simp
qed

section \<open>Source and target samples are kept apart\<close>

lemma target_kmeans_init_parts:
  assumes dom: "length (sample_domain Xd) = length (X_X Xd)" and lab: "length y = length (X_X Xd)"
  shows "target_kmeans_init net Xd y =
    (let features_s = predict_features net (map fst (source_samples Xd y));
         y_s = map snd (source_samples Xd y)
     in case centroids_loop features_s y_s [0..<length (remdups y_s)] [] of
          Inl e \<Rightarrow> Inl e
        | Inr cs \<Rightarrow>
            (case torch_stack cs of
               Inl e \<Rightarrow> Inl e
             | Inr source_centroids \<Rightarrow>
                 Inr (\<lparr>n_clusters = length (remdups y_s), random_state = 0,
                       initial_centroids = source_centroids, fitted = None\<rparr>,
                      predict_features net (target_inputs Xd))))"
proof -
  have Xs: "mask_index (X_X Xd) (map (\<lambda>d. d \<ge> 0) (sample_domain Xd))
      = Inr (map fst (source_samples Xd y))"
    using source_split [OF dom lab [symmetric], of "\<lambda>d. d \<ge> 0"]
    by (simp add: mask_index_zip [OF dom] source_samples_def)
  have ys: "mask_index y (map (\<lambda>d. d \<ge> 0) (sample_domain Xd))
      = Inr (map snd (source_samples Xd y))"
    using source_split [OF dom lab [symmetric], of "\<lambda>d. d \<ge> 0"] dom lab
    by (simp add: mask_index_zip source_samples_def)
  have Xt: "mask_index (X_X Xd) (map (\<lambda>d. d < 0) (sample_domain Xd))
      = Inr (target_inputs Xd)"
    by (simp add: mask_index_zip [OF dom] target_inputs_def)
  show ?thesis
    unfolding target_kmeans_init_def Xs ys Xt by (simp add: Let_def)
qed

lemma on_batch_end_masks:
  assumes "well_shaped Xd"
  shows "mask_index (X_X Xd) (map (\<lambda>d. d < 0) (sample_domain Xd)) = Inr (target_inputs Xd)"
    and "mask_index (sample_idx Xd) (map (\<lambda>d. d < 0) (sample_domain Xd)) = Inr (target_idx Xd)"
  using assms
  by (simp_all add: well_shaped_def mask_index_zip target_inputs_def target_idx_def)

lemma partition_by_sign:
  "length ds = length xs \<Longrightarrow>
   length (filter (\<lambda>(d, x). (d :: int) \<ge> 0) (zip ds xs))
     + length (filter (\<lambda>(d, x). d < 0) (zip ds xs)) = length xs"
  by (induction ds xs rule: list_induct2) auto

lemma zip3_filter_length:
  "length ds = length xs \<Longrightarrow> length xs = length ys \<Longrightarrow>
   length (filter (\<lambda>(d, x). P d) (zip ds (zip xs ys)))
     = length (filter (\<lambda>(d, x). P d) (zip ds xs))"
  by (induction ds xs ys rule: list_induct3) auto

lemma sources_and_targets_partition:
  assumes dom: "length (sample_domain Xd) = length (X_X Xd)" and lab: "length y = length (X_X Xd)"
  shows "length (source_samples Xd y) + length (target_inputs Xd) = length (X_X Xd)"
proof -
  have "length (source_samples Xd y)
      = length (filter (\<lambda>(d, x). d \<ge> 0) (zip (sample_domain Xd) (X_X Xd)))"
    using zip3_filter_length [OF dom lab [symmetric], of "\<lambda>d. d \<ge> 0"]
    by (simp add: source_samples_def)
  then show ?thesis
    using partition_by_sign [OF dom] by (simp add: target_inputs_def)
qed

lemma centroids_ignore_targets:
  assumes d1: "length (sample_domain Xd1) = length (X_X Xd1)" and l1: "length y1 = length (X_X Xd1)"
    and d2: "length (sample_domain Xd2) = length (X_X Xd2)" and l2: "length y2 = length (X_X Xd2)"
    and same: "source_samples Xd1 y1 = source_samples Xd2 y2"
  shows "map_sum id fst (target_kmeans_init net Xd1 y1)
       = map_sum id fst (target_kmeans_init net Xd2 y2)"
  unfolding target_kmeans_init_parts [OF d1 l1] target_kmeans_init_parts [OF d2 l2] Let_def same
  by (simp split: sum.split)

lemma clustered_features_ignore_sources:
  assumes d1: "length (sample_domain Xd1) = length (X_X Xd1)" and l1: "length y1 = length (X_X Xd1)"
    and d2: "length (sample_domain Xd2) = length (X_X Xd2)" and l2: "length y2 = length (X_X Xd2)"
    and same: "target_inputs Xd1 = target_inputs Xd2"
    and r1: "target_kmeans_init net Xd1 y1 = Inr (k1, f1)"
    and r2: "target_kmeans_init net Xd2 y2 = Inr (k2, f2)"
  shows "f1 = f2"
proof -
  have "f1 = predict_features net (target_inputs Xd1)"
    using r1 unfolding target_kmeans_init_parts [OF d1 l1] Let_def
    by (simp split: sum.splits)
  moreover have "f2 = predict_features net (target_inputs Xd2)"
    using r2 unfolding target_kmeans_init_parts [OF d2 l2] Let_def
    by (simp split: sum.splits)
  ultimately show ?thesis by (simp add: same)
qed

lemma memory_ignores_sources:
  assumes w1: "well_shaped Xb1" and w2: "well_shaped Xb2"
    and e1: "target_inputs Xb1 = target_inputs Xb2" and e2: "target_idx Xb1 = target_idx Xb2"
  shows "on_batch_end self net (Xb1, b1) = on_batch_end self net (Xb2, b2)"
  unfolding on_batch_end_def Let_def fst_conv on_batch_end_masks [OF w1]
    on_batch_end_masks [OF w2] e1 e2
  by (rule refl)

text \<open>
  Claim C7. Both hooks split the samples by the sign of the domain indicator, and every
  sample of a well-shaped set falls on exactly one side. Two training sets with the same
  source samples (inputs and labels) give the same clusterer arguments, or the same error,
  whatever their target samples are; two training sets with the same target inputs have the
  clusterer fitted on the same features, whatever their source samples are; two batches
  with the same target rows give the same result of the batch-end update, whatever their
  source rows are.
\<close>

theorem domains_kept_apart:
  fixes net :: "('d, 'x, 'f) net"
  shows
  "(length (sample_domain Xd1) = length (X_X Xd1) \<and> length y1 = length (X_X Xd1)
    \<and> length (sample_domain Xd2) = length (X_X Xd2) \<and> length y2 = length (X_X Xd2) \<longrightarrow>
      (source_samples Xd1 y1 = source_samples Xd2 y2 \<longrightarrow>
         map_sum id fst (target_kmeans_init net Xd1 y1)
           = map_sum id fst (target_kmeans_init net Xd2 y2))
    \<and> (target_inputs Xd1 = target_inputs Xd2 \<longrightarrow>
         (\<forall>k1 f1 k2 f2. target_kmeans_init net Xd1 y1 = Inr (k1, f1)
            \<and> target_kmeans_init net Xd2 y2 = Inr (k2, f2) \<longrightarrow> f1 = f2))
    \<and> length (source_samples Xd1 y1) + length (target_inputs Xd1) = length (X_X Xd1))
 \<and> (well_shaped Xb1 \<and> well_shaped Xb2 \<and> target_inputs Xb1 = target_inputs Xb2
      \<and> target_idx Xb1 = target_idx Xb2 \<longrightarrow>
      on_batch_end self net (Xb1, b1) = on_batch_end self net (Xb2, b2))"
proof -
  have epoch: "(source_samples Xd1 y1 = source_samples Xd2 y2 \<longrightarrow>
         map_sum id fst (target_kmeans_init net Xd1 y1)
           = map_sum id fst (target_kmeans_init net Xd2 y2))
    \<and> (target_inputs Xd1 = target_inputs Xd2 \<longrightarrow>
         (\<forall>k1 f1 k2 f2. target_kmeans_init net Xd1 y1 = Inr (k1, f1)
            \<and> target_kmeans_init net Xd2 y2 = Inr (k2, f2) \<longrightarrow> f1 = f2))
    \<and> length (source_samples Xd1 y1) + length (target_inputs Xd1) = length (X_X Xd1)"
    if d1: "length (sample_domain Xd1) = length (X_X Xd1)" and l1: "length y1 = length (X_X Xd1)"
      and d2: "length (sample_domain Xd2) = length (X_X Xd2)" and l2: "length y2 = length (X_X Xd2)"
  proof (intro conjI impI allI)
    assume "source_samples Xd1 y1 = source_samples Xd2 y2"
    then show "map_sum id fst (target_kmeans_init net Xd1 y1)
           = map_sum id fst (target_kmeans_init net Xd2 y2)"
      by (rule centroids_ignore_targets [OF d1 l1 d2 l2])
  next
    fix k1 f1 k2 f2
    assume same: "target_inputs Xd1 = target_inputs Xd2"
      and r: "target_kmeans_init net Xd1 y1 = Inr (k1, f1)
            \<and> target_kmeans_init net Xd2 y2 = Inr (k2, f2)"
    from r have r1: "target_kmeans_init net Xd1 y1 = Inr (k1, f1)"
      and r2: "target_kmeans_init net Xd2 y2 = Inr (k2, f2)" by simp_all
    show "f1 = f2" by (rule clustered_features_ignore_sources [OF d1 l1 d2 l2 same r1 r2])
  next
    show "length (source_samples Xd1 y1) + length (target_inputs Xd1) = length (X_X Xd1)"
      by (rule sources_and_targets_partition [OF d1 l1])
  qed
  have batch: "on_batch_end self net (Xb1, b1) = on_batch_end self net (Xb2, b2)"
    if "well_shaped Xb1" "well_shaped Xb2" "target_inputs Xb1 = target_inputs Xb2"
      "target_idx Xb1 = target_idx Xb2"
    using that by (rule memory_ignores_sources)
  from epoch batch show ?thesis by blast
qed

theorem domains_kept_apart_witness:
  "source_samples example_gap_X example_gap_y
      = source_samples example_gap_X_other_target example_gap_y_other_target
   \<and> target_inputs example_gap_X \<noteq> target_inputs example_gap_X_other_target
   \<and> map_sum id fst (target_kmeans_init example_net example_gap_X example_gap_y)
      = map_sum id fst (target_kmeans_init example_net example_gap_X_other_target
          example_gap_y_other_target)
   \<and> source_samples example_gap_X example_gap_y \<noteq> source_samples example_gap_X [0, 1, - 1]
   \<and> snd (projr (target_kmeans_init example_net example_gap_X example_gap_y))
      = snd (projr (target_kmeans_init example_net example_gap_X [0, 1, - 1]))
   \<and> length (source_samples example_gap_X example_gap_y) + length (target_inputs example_gap_X)
      = length (X_X example_gap_X)
   \<and> well_shaped example_batch_X \<and> well_shaped example_batch_X_other_source
   \<and> target_inputs example_batch_X = target_inputs example_batch_X_other_source
   \<and> target_idx example_batch_X = target_idx example_batch_X_other_source
   \<and> X_X example_batch_X \<noteq> X_X example_batch_X_other_source
   \<and> on_batch_end \<lparr>momentum = 7 / 10\<rparr> example_net (example_batch_X, ())
      = on_batch_end \<lparr>momentum = 7 / 10\<rparr> example_net (example_batch_X_other_source, ())"
proof -
  have d1: "length (sample_domain example_gap_X) = length (X_X example_gap_X)"
    and l1: "length example_gap_y = length (X_X example_gap_X)"
    and l1': "length [0, 1, - 1 :: int] = length (X_X example_gap_X)"
    by (simp_all add: example_gap_X_def example_gap_y_def)
  have d2: "length (sample_domain example_gap_X_other_target)
        = length (X_X example_gap_X_other_target)"
    and l2: "length example_gap_y_other_target = length (X_X example_gap_X_other_target)"
    by (simp_all add: example_gap_X_other_target_def example_gap_y_other_target_def)
  have src: "source_samples example_gap_X example_gap_y
      = source_samples example_gap_X_other_target example_gap_y_other_target"
    by (simp add: source_samples_def example_gap_X_def example_gap_y_def
        example_gap_X_other_target_def example_gap_y_other_target_def)
  have tgt: "target_inputs example_gap_X \<noteq> target_inputs example_gap_X_other_target"
    by (simp add: target_inputs_def example_gap_X_def example_gap_X_other_target_def)
  have src': "source_samples example_gap_X example_gap_y \<noteq> source_samples example_gap_X [0, 1, - 1]"
    by (simp add: source_samples_def example_gap_X_def example_gap_y_def)
  have w1: "well_shaped example_batch_X" and w2: "well_shaped example_batch_X_other_source"
    by (simp_all add: well_shaped_def example_batch_X_def example_batch_X_other_source_def)
  have e1: "target_inputs example_batch_X = target_inputs example_batch_X_other_source"
    and e2: "target_idx example_batch_X = target_idx example_batch_X_other_source"
    and e3: "X_X example_batch_X \<noteq> X_X example_batch_X_other_source"
    by (simp_all add: target_inputs_def target_idx_def example_batch_X_def
        example_batch_X_other_source_def)
  note first = domains_kept_apart [of example_gap_X example_gap_y example_gap_X_other_target
      example_gap_y_other_target example_net example_batch_X example_batch_X_other_source
      "\<lparr>momentum = 7 / 10\<rparr>" "()" "()"]
  note second = domains_kept_apart [of example_gap_X example_gap_y example_gap_X
      "[0, 1, - 1]" example_net example_batch_X example_batch_X_other_source
      "\<lparr>momentum = 7 / 10\<rparr>" "()" "()"]
  from first d1 l1 d2 l2 src
  have a: "map_sum id fst (target_kmeans_init example_net example_gap_X example_gap_y)
      = map_sum id fst (target_kmeans_init example_net example_gap_X_other_target
          example_gap_y_other_target)"
    and c: "length (source_samples example_gap_X example_gap_y)
        + length (target_inputs example_gap_X) = length (X_X example_gap_X)"
    by blast+
  from first w1 w2 e1 e2
  have b: "on_batch_end \<lparr>momentum = 7 / 10\<rparr> example_net (example_batch_X, ())
      = on_batch_end \<lparr>momentum = 7 / 10\<rparr> example_net (example_batch_X_other_source, ())"
    by blast
  from second d1 l1 l1' example_gap_init example_gap_relabelled_init
  have d: "snd (projr (target_kmeans_init example_net example_gap_X example_gap_y))
      = snd (projr (target_kmeans_init example_net example_gap_X [0, 1, - 1]))"
    by simp
  from src tgt a src' d c w1 w2 e1 e2 e3 b show ?thesis by blast
qed

end
